theory Spec2Isabelle
  imports Main "HOL-Library.AList"
begin

section \<open>JavaScript values\<close>

text \<open>
  The runtime context of eilos stores untyped JavaScript values (option trees, argument
  bags, configuration-file definitions) in ordinary objects, whose prototype is
  \<^verbatim>\<open>Object.prototype\<close>. A read \<^verbatim>\<open>o[k]\<close> that finds no own property goes on to the
  prototype, and so does the \<^verbatim>\<open>in\<close> operator; the model follows both. The members of
  \<^verbatim>\<open>Object.prototype\<close> are functions, except \<^verbatim>\<open>__proto__\<close>, an accessor whose getter gives the
  prototype of the object and whose setter replaces it.
\<close>

definition objectPrototypeMembers :: "string list" where
  "objectPrototypeMembers =
     [''constructor'', ''__defineGetter__'', ''__defineSetter__'', ''hasOwnProperty'',
      ''__lookupGetter__'', ''__lookupSetter__'', ''isPrototypeOf'', ''propertyIsEnumerable'',
      ''toString'', ''valueOf'', ''__proto__'', ''toLocaleString'']"

text \<open>
  The values are data: \<^verbatim>\<open>undefined\<close>, \<^verbatim>\<open>null\<close>, booleans, integers (fractions, NaN and the
  infinities are left out), strings, arrays and plain objects. Functions, dates, regular
  expressions and instances of classes are not among them. A plain object is the
  association list of its own enumerable properties in insertion order; an assignment
  \<^verbatim>\<open>o[k] = v\<close> to it is \<^const>\<open>AList.update\<close> (replace in place, or append). The type of
  its keys leaves out \<^verbatim>\<open>__proto__\<close>: an object literal and an assignment do not make an
  own property of that name on an ordinary object (\<^verbatim>\<open>JSON.parse\<close> and
  \<^verbatim>\<open>Object.defineProperty\<close> can; objects made so are not among the values).
\<close>

typedef pkey = "{s :: string. s \<noteq> ''__proto__''}"
  by (rule exI[of _ "[]"]) simp

definition key :: "string \<Rightarrow> pkey" where
  "key s = Abs_pkey s"

definition keyName :: "pkey \<Rightarrow> string" where
  "keyName k = Rep_pkey k"

datatype jsval =
    JUndefined
  | JNull
  | JBool bool
  | JNum int
  | JStr string
  | JArr "jsval list"
  | JObj "(pkey \<times> jsval) list"

text \<open>
  What a read by name can give: a value, or a member inherited from \<^verbatim>\<open>Object.prototype\<close>
  or \<^verbatim>\<open>Array.prototype\<close> (\<open>ObjectMember ''__proto__''\<close> stands for \<^verbatim>\<open>Object.prototype\<close>
  itself, every other member is a built-in function).
\<close>

datatype jsread = Data jsval | ObjectMember string | ArrayMember string

text \<open>Decimal rendering of an array index, as a property key.\<close>

fun digits :: "nat \<Rightarrow> string" where
  "digits n =
     (if n < 10 then [char_of (48 + n)]
      else digits (n div 10) @ [char_of (48 + n mod 10)])"

declare digits.simps [simp del]

text \<open>
  The own enumerable properties of a value, as \<^verbatim>\<open>Object.keys\<close> and \<^verbatim>\<open>Object.assign\<close> see
  them: the entries of an object, the indexed elements of an array, the indexed
  characters of a string, and nothing for the other values.
\<close>

fun ownProps :: "jsval \<Rightarrow> (pkey \<times> jsval) list" where
  "ownProps (JObj kvs) = kvs"
| "ownProps (JArr xs) = zip (map (\<lambda>i. key (digits i)) [0..<length xs]) xs"
| "ownProps (JStr s) = zip (map (\<lambda>i. key (digits i)) [0..<length s]) (map (\<lambda>c. JStr [c]) s)"
| "ownProps _ = []"

definition getKeys :: "jsval \<Rightarrow> pkey list" where
  "getKeys v = map fst (ownProps v)"

text \<open>The read \<^verbatim>\<open>v[k]\<close> of an own enumerable property: \<^verbatim>\<open>undefined\<close> when \<open>v\<close> has none.\<close>

definition getProp :: "jsval \<Rightarrow> pkey \<Rightarrow> jsval" where
  "getProp v k = (case map_of (ownProps v) k of Some x \<Rightarrow> x | None \<Rightarrow> JUndefined)"

text \<open>
  The read \<^verbatim>\<open>o[name]\<close> on a plain object with any name: the own property, else the member
  of \<^verbatim>\<open>Object.prototype\<close> of that name, else \<^verbatim>\<open>undefined\<close>.
\<close>

definition readProperty :: "(pkey \<times> jsval) list \<Rightarrow> string \<Rightarrow> jsread" where
  "readProperty kvs name =
     (if name = ''__proto__'' then ObjectMember name
      else case map_of kvs (key name) of
             Some x \<Rightarrow> Data x
           | None \<Rightarrow> if name \<in> set objectPrototypeMembers then ObjectMember name
                     else Data JUndefined)"

fun truthy :: "jsval \<Rightarrow> bool" where
  "truthy JUndefined = False"
| "truthy JNull = False"
| "truthy (JBool b) = b"
| "truthy (JNum n) = (n \<noteq> 0)"
| "truthy (JStr s) = (s \<noteq> [])"
| "truthy (JArr _) = True"
| "truthy (JObj _) = True"

text \<open>The loose comparison \<^verbatim>\<open>v == null\<close>.\<close>

fun isNullish :: "jsval \<Rightarrow> bool" where
  "isNullish JUndefined = True"
| "isNullish JNull = True"
| "isNullish _ = False"


text \<open>The same three tests on what a read gave: an inherited member is an object or a function.\<close>

fun truthyRead :: "jsread \<Rightarrow> bool" where
  "truthyRead (Data v) = truthy v"
| "truthyRead _ = True"

fun isNullishRead :: "jsread \<Rightarrow> bool" where
  "isNullishRead (Data v) = isNullish v"
| "isNullishRead _ = False"


fun isArray :: "jsval \<Rightarrow> bool" where
  "isArray (JArr _) = True"
| "isArray _ = False"

fun elems :: "jsval \<Rightarrow> jsval list" where
  "elems (JArr xs) = xs"
| "elems _ = []"

text \<open>
  \<^verbatim>\<open>Object.assign(target, ...sources)\<close>: every own enumerable key of every source, in
  order, is assigned to the target.
\<close>

definition Object_assign :: "(pkey \<times> jsval) list \<Rightarrow> jsval list \<Rightarrow> (pkey \<times> jsval) list" where
  "Object_assign target sources =
     fold (\<lambda>src t. fold (\<lambda>k d. AList.update k (getProp src k) d) (getKeys src) t)
       sources target"

section \<open>The deepmerge package\<close>

text \<open>
  \<^verbatim>\<open>updateOptions\<close> and \<^verbatim>\<open>exec\<close> call the \<^verbatim>\<open>deepmerge\<close> package, an external dependency
  whose code is not among the repository's files. The three mutually recursive
  functions below follow the package's algorithm (version 4.2 and later): \<^verbatim>\<open>deepmerge\<close>
  dispatches on whether target and source are arrays, \<^verbatim>\<open>mergeObject\<close> copies the target's
  properties and then merges or copies the source's, skipping the keys that are unsafe,
  and \<^verbatim>\<open>cloneUnlessOtherwiseSpecified\<close> copies a mergeable value by merging it into an
  empty target. The only option the repository sets is \<^verbatim>\<open>arrayMerge\<close>; \<^verbatim>\<open>None\<close> stands for the
  package's default, which concatenates and clones the elements.
\<close>

fun isMergeableObject :: "jsval \<Rightarrow> bool" where
  "isMergeableObject (JArr _) = True"
| "isMergeableObject (JObj _) = True"
| "isMergeableObject _ = False"

definition emptyTarget :: "jsval \<Rightarrow> jsval" where
  "emptyTarget val = (if isArray val then JArr [] else JObj [])"

definition arrayPrototypeMembers :: "string list" where
  "arrayPrototypeMembers =
     [''constructor'', ''at'', ''concat'', ''copyWithin'', ''fill'', ''find'', ''findIndex'',
      ''findLast'', ''findLastIndex'', ''lastIndexOf'', ''pop'', ''push'', ''reverse'',
      ''shift'', ''unshift'', ''slice'', ''sort'', ''splice'', ''includes'', ''indexOf'',
      ''join'', ''keys'', ''entries'', ''values'', ''forEach'', ''filter'', ''flat'',
      ''flatMap'', ''map'', ''every'', ''some'', ''reduce'', ''reduceRight'',
      ''toLocaleString'', ''toString'', ''toReversed'', ''toSorted'', ''toSpliced'', ''with'']"

text \<open>
  \<^verbatim>\<open>Object.hasOwnProperty.call(target, key) && Object.propertyIsEnumerable.call(target, key)\<close>
  on an object or an array.
\<close>

definition hasOwnEnumerable :: "jsval \<Rightarrow> pkey \<Rightarrow> bool" where
  "hasOwnEnumerable target k = (isMergeableObject target \<and> k \<in> set (getKeys target))"

text \<open>
  \<^verbatim>\<open>property in object\<close>: own or inherited, enumerable or not; on a primitive the operator
  throws and the package counts that as false. (\<^verbatim>\<open>mergeObject\<close> is only ever called with a
  target that is not an array; the members of \<^verbatim>\<open>Array.prototype\<close> are those of ES2023.)
\<close>

fun propertyIsOnObject :: "jsval \<Rightarrow> pkey \<Rightarrow> bool" where
  "propertyIsOnObject (JObj kvs) k =
     (k \<in> set (map fst kvs) \<or> keyName k \<in> set objectPrototypeMembers)"
| "propertyIsOnObject (JArr xs) k =
     (k \<in> set (getKeys (JArr xs)) \<or> keyName k = ''length''
      \<or> keyName k \<in> set arrayPrototypeMembers \<or> keyName k \<in> set objectPrototypeMembers)"
| "propertyIsOnObject _ k = False"

text \<open>
  A property is unsafe when it is on the target without being an own enumerable
  property of it: the package does not merge such a key of the source.
\<close>

definition propertyIsUnsafe :: "jsval \<Rightarrow> pkey \<Rightarrow> bool" where
  "propertyIsUnsafe target k = (propertyIsOnObject target k \<and> \<not> hasOwnEnumerable target k)"

type_synonym arrayMerge = "jsval list \<Rightarrow> jsval list \<Rightarrow> jsval list"

lemma size_list_mem: "x \<in> set xs \<Longrightarrow> f x + 1 \<le> size_list f xs"
  by (induction xs) auto

lemma map_of_keys_Some:
  "k \<in> set (map fst kvs) \<Longrightarrow> \<exists>x. map_of kvs k = Some x \<and> (k, x) \<in> set kvs"
  by (induction kvs) auto

lemma size_getProp_le:
  "k \<in> set (getKeys v) \<Longrightarrow> isMergeableObject v \<Longrightarrow> size (getProp v k) + 2 \<le> size v"
proof (cases v)
  case (JObj kvs)
  assume "k \<in> set (getKeys v)"
  then have "k \<in> set (map fst kvs)" using JObj by (simp add: getKeys_def)
  then obtain x where x: "map_of kvs k = Some x" "(k, x) \<in> set kvs"
    using map_of_keys_Some[of k kvs] by auto
  from size_list_mem[OF x(2), of "size_prod (\<lambda>x. 0) size"] x(1) JObj
  show ?thesis by (simp add: getProp_def)
next
  case (JArr xs)
  let ?ps = "zip (map (\<lambda>i. key (digits i)) [0..<length xs]) xs"
  assume "k \<in> set (getKeys v)"
  then have "k \<in> set (map fst ?ps)"
    using JArr by (simp add: getKeys_def)
  then obtain x where x: "map_of ?ps k = Some x" "(k, x) \<in> set ?ps"
    using map_of_keys_Some[of k ?ps] by auto
  then have "x \<in> set xs" by (meson in_set_zipE)
  from size_list_mem[OF this, of size] x(1) JArr
  show ?thesis by (simp add: getProp_def)
qed simp_all

lemma map_of_string_props:
  "map_of (zip ks (map (\<lambda>c. JStr [c]) s)) k = Some x \<Longrightarrow> \<not> isMergeableObject x"
proof -
  assume "map_of (zip ks (map (\<lambda>c. JStr [c]) s)) k = Some x"
  then have "(k, x) \<in> set (zip ks (map (\<lambda>c. JStr [c]) s))" by (rule map_of_SomeD)
  then have "x \<in> set (map (\<lambda>c. JStr [c]) s)" by (meson in_set_zipE)
  then show ?thesis by auto
qed

lemma mergeable_getProp:
  "isMergeableObject (getProp s k) \<Longrightarrow> isMergeableObject s \<and> k \<in> set (getKeys s)"
proof -
  assume m: "isMergeableObject (getProp s k)"
  then obtain x where x: "map_of (ownProps s) k = Some x" "isMergeableObject x"
    by (auto simp: getProp_def split: option.splits)
  then have "(k, x) \<in> set (ownProps s)" by (meson map_of_SomeD)
  then have k: "k \<in> set (getKeys s)" by (force simp: getKeys_def)
  have "isMergeableObject s"
  proof (cases s)
    case (JStr str)
    with x map_of_string_props show ?thesis by fastforce
  qed (use x in simp_all)
  with k show ?thesis by simp
qed

lemma safe_on_object_own:
  "propertyIsOnObject t k \<Longrightarrow> \<not> propertyIsUnsafe t k \<Longrightarrow>
   isMergeableObject t \<and> k \<in> set (getKeys t)"
  by (simp add: propertyIsUnsafe_def hasOwnEnumerable_def)

lemma size_elems_le: "e \<in> set (elems t) \<Longrightarrow> size e + 2 \<le> size t"
proof (cases t)
  case (JArr xs)
  assume "e \<in> set (elems t)"
  then have "e \<in> set xs" using JArr by simp
  from size_list_mem[OF this, of size] JArr show ?thesis by simp
qed simp_all

lemma isArray_size: "isArray v \<Longrightarrow> 1 \<le> size v"
  by (cases v) simp_all

function deepmerge :: "arrayMerge option \<Rightarrow> jsval \<Rightarrow> jsval \<Rightarrow> jsval"
  and cloneUnlessOtherwiseSpecified :: "arrayMerge option \<Rightarrow> jsval \<Rightarrow> jsval"
  and mergeObject :: "arrayMerge option \<Rightarrow> jsval \<Rightarrow> jsval \<Rightarrow> jsval"
where
  "cloneUnlessOtherwiseSpecified am v =
     (if isMergeableObject v then deepmerge am (emptyTarget v) v else v)"
| "deepmerge am target source =
     (if isArray source \<noteq> isArray target then cloneUnlessOtherwiseSpecified am source
      else if isArray source then
        (case am of
           Some f \<Rightarrow> JArr (f (elems target) (elems source))
         | None \<Rightarrow> JArr (map (cloneUnlessOtherwiseSpecified am) (elems target @ elems source)))
      else mergeObject am target source)"
| "mergeObject am target source =
     JObj (fold
       (\<lambda>k destination.
          if propertyIsUnsafe target k then destination
          else if propertyIsOnObject target k \<and> isMergeableObject (getProp source k)
          then AList.update k (deepmerge am (getProp target k) (getProp source k)) destination
          else AList.update k (cloneUnlessOtherwiseSpecified am (getProp source k)) destination)
       (getKeys source)
       (if isMergeableObject target
        then fold (\<lambda>k destination.
               AList.update k (cloneUnlessOtherwiseSpecified am (getProp target k)) destination)
             (getKeys target) []
        else []))"
  by pat_completeness auto

termination
  apply (relation "measure (\<lambda>x. case x of
      Inl (am, t, s) \<Rightarrow> 4 * (max 1 (size t) + size s) + (if isArray s \<noteq> isArray t then 4 else 2)
    | Inr (Inl (am, v)) \<Rightarrow> (if isMergeableObject v then 4 * size v + 7 else 0)
    | Inr (Inr (am, t, s)) \<Rightarrow> 4 * (max 1 (size t) + size s) + 1)")
  subgoal by simp
  subgoal by (simp add: emptyTarget_def)
  subgoal by (simp add: max_def)
  subgoal for am target source x
    using size_elems_le[of x target] size_elems_le[of x source] isArray_size[of source]
    by (auto simp: max_def)
  subgoal by simp
  subgoal for am target source x
    using size_getProp_le[of x target] by (auto simp: max_def)
  subgoal for am target source x
    using safe_on_object_own[of target x] mergeable_getProp[of source x]
      size_getProp_le[of x target] size_getProp_le[of x source]
    by (auto simp: max_def)
  subgoal for am target source x
    using mergeable_getProp[of source x] size_getProp_le[of x source]
    by (auto simp: max_def)
  done

section \<open>The runtime context\<close>

text \<open>
  \<^verbatim>\<open>overwriteMerge\<close> is the array strategy the context hands to deepmerge: the
  destination's elements, then the source's. Its third parameter (the options) is
  ignored by the source and left out here.
\<close>

definition overwriteMerge :: arrayMerge where
  "overwriteMerge destinationArray sourceArray = [] @ destinationArray @ sourceArray"

datatype error = Error string | TypeError string

text \<open>
  The private fields of the class \<^verbatim>\<open>RuntimeContext\<close>, each an ordinary object given by
  its own properties. \<^verbatim>\<open>_config_files\<close> can hold objects, so an assignment to its
  \<^verbatim>\<open>__proto__\<close> can replace its prototype: the field \<open>p_config_files_proto\<close> is that
  prototype (\<^verbatim>\<open>Object.prototype\<close>, \<^verbatim>\<open>null\<close>, or a value that was assigned). \<^verbatim>\<open>_dir\<close> holds
  strings and \<^verbatim>\<open>_args\<close> and \<^verbatim>\<open>_config\<close> are only written by \<^verbatim>\<open>Object.assign\<close> and deepmerge,
  so their prototype stays \<^verbatim>\<open>Object.prototype\<close>. \<^verbatim>\<open>_usedFiles\<close> is a JavaScript \<^verbatim>\<open>Set\<close>, which
  keeps insertion order: a list without repetitions.
\<close>

datatype prototype =
    ObjectPrototype
  | NullPrototype
  | ObjectValue "(pkey \<times> jsval) list"
  | ArrayValue "jsval list"

record RuntimeContext =
  p_args :: "(pkey \<times> jsval) list"
  p_env :: "(string \<times> string) list"
  p_dir :: "(string \<times> string) list"
  p_config :: "(pkey \<times> jsval) list"
  p_config_files :: "(string \<times> jsval) list"
  p_config_files_proto :: prototype
  p_usedFiles :: "string list"

definition new_RuntimeContext ::
  "(string \<times> string) list \<Rightarrow> (string \<times> string) list \<Rightarrow> RuntimeContext" where
  "new_RuntimeContext env dir =
     \<lparr> p_args = [], p_env = env, p_dir = dir, p_config = [],
       p_config_files = [], p_config_files_proto = ObjectPrototype, p_usedFiles = [] \<rparr>"

definition Set_add :: "string list \<Rightarrow> string \<Rightarrow> string list" where
  "Set_add s x = (if x \<in> set s then s else s @ [x])"

subsection \<open>Arguments\<close>

definition updateArgs :: "(pkey \<times> jsval) list \<Rightarrow> RuntimeContext \<Rightarrow> RuntimeContext" where
  "updateArgs args ctx = ctx \<lparr> p_args := Object_assign (p_args ctx) [JObj args] \<rparr>"


subsection \<open>Directories\<close>

text \<open>
  The read \<^verbatim>\<open>this._dir[alias]\<close>. The assignment \<^verbatim>\<open>this._dir[alias] = path\<close> stores an own
  property, except for the alias \<^verbatim>\<open>__proto__\<close> when it is not an own property: then the
  inherited setter runs, and it ignores a string.
\<close>

definition readDirectory :: "RuntimeContext \<Rightarrow> string \<Rightarrow> jsread" where
  "readDirectory ctx alias =
     (case map_of (p_dir ctx) alias of
        Some path \<Rightarrow> Data (JStr path)
      | None \<Rightarrow> if alias \<in> set objectPrototypeMembers then ObjectMember alias
                else Data JUndefined)"

definition setDirectory :: "string \<Rightarrow> string \<Rightarrow> RuntimeContext \<Rightarrow> RuntimeContext" where
  "setDirectory alias path ctx =
     (if alias = ''__proto__'' \<and> alias \<notin> set (map fst (p_dir ctx)) then ctx
      else ctx \<lparr> p_dir := AList.update alias path (p_dir ctx) \<rparr>)"

definition directoryNotDefined :: "string \<Rightarrow> error" where
  "directoryNotDefined alias =
     Error (''Directory '' @ [CHR 0x22] @ alias @ [CHR 0x22] @ '' was not defined'')"

definition getDirectory :: "string \<Rightarrow> RuntimeContext \<Rightarrow> error + jsread" where
  "getDirectory alias ctx =
     (if isNullishRead (readDirectory ctx alias) then Inl (directoryNotDefined alias)
      else Inr (readDirectory ctx alias))"

subsection \<open>Options\<close>

fun objectEntries :: "jsval \<Rightarrow> (pkey \<times> jsval) list" where
  "objectEntries (JObj kvs) = kvs"
| "objectEntries _ = []"

definition updateOptions :: "(pkey \<times> jsval) list \<Rightarrow> RuntimeContext \<Rightarrow> RuntimeContext" where
  "updateOptions obj ctx =
     ctx \<lparr> p_config :=
       objectEntries (deepmerge (Some overwriteMerge) (JObj (p_config ctx)) (JObj obj)) \<rparr>"




subsection \<open>Configuration files\<close>

text \<open>
  The read \<^verbatim>\<open>this._config_files[name]\<close>: the own property, else what the prototype gives.
  Through an assigned object or array the read finds that value's own properties, then
  the members of its prototype; \<^verbatim>\<open>__proto__\<close> reads the prototype itself.
\<close>

fun inheritedProperty :: "prototype \<Rightarrow> string \<Rightarrow> jsread" where
  "inheritedProperty ObjectPrototype name =
     (if name \<in> set objectPrototypeMembers then ObjectMember name else Data JUndefined)"
| "inheritedProperty NullPrototype name = Data JUndefined"
| "inheritedProperty (ObjectValue kvs) name =
     (if name = ''__proto__'' then Data (JObj kvs) else readProperty kvs name)"
| "inheritedProperty (ArrayValue xs) name =
     (if name = ''__proto__'' then Data (JArr xs)
      else case map_of (zip (map digits [0..<length xs]) xs) name of
             Some x \<Rightarrow> Data x
           | None \<Rightarrow>
               if name = ''length'' then Data (JNum (int (length xs)))
               else if name \<in> set arrayPrototypeMembers then ArrayMember name
               else if name \<in> set objectPrototypeMembers then ObjectMember name
               else Data JUndefined)"

definition readFile :: "RuntimeContext \<Rightarrow> string \<Rightarrow> jsread" where
  "readFile ctx name =
     (case map_of (p_config_files ctx) name of
        Some x \<Rightarrow> Data x
      | None \<Rightarrow> inheritedProperty (p_config_files_proto ctx) name)"

text \<open>
  The assignment \<^verbatim>\<open>this._config_files[name] = x\<close>: an own property is replaced; otherwise the
  name \<^verbatim>\<open>__proto__\<close>, while \<^verbatim>\<open>Object.prototype\<close> is still in the chain, runs the inherited
  setter, which makes an object, an array or \<^verbatim>\<open>null\<close> the new prototype and ignores
  anything else; every other assignment adds an own property.
\<close>

definition writeFile :: "string \<Rightarrow> jsval \<Rightarrow> RuntimeContext \<Rightarrow> RuntimeContext" where
  "writeFile name x ctx =
     (if name = ''__proto__'' \<and> name \<notin> set (map fst (p_config_files ctx))
         \<and> p_config_files_proto ctx \<noteq> NullPrototype
      then (case x of
              JObj kvs \<Rightarrow> ctx \<lparr> p_config_files_proto := ObjectValue kvs \<rparr>
            | JArr xs \<Rightarrow> ctx \<lparr> p_config_files_proto := ArrayValue xs \<rparr>
            | JNull \<Rightarrow> ctx \<lparr> p_config_files_proto := NullPrototype \<rparr>
            | _ \<Rightarrow> ctx)
      else ctx \<lparr> p_config_files := AList.update name x (p_config_files ctx) \<rparr>)"

text \<open>
  \<^verbatim>\<open>path.join\<close> belongs to the platform (its separator and normalisation differ between
  POSIX and Windows), so the accessors take it as the parameter \<open>path_join\<close>; given
  anything but strings it throws a \<^verbatim>\<open>TypeError\<close>. An accessor returns the context it leaves
  behind together with its result, because it changes the context before it can throw.
\<close>

definition invalidPathArgument :: error where
  "invalidPathArgument =
     TypeError (''The '' @ [CHR 0x22] @ ''path'' @ [CHR 0x22] @ '' argument must be of type string'')"

definition getConfigFilePath ::
  "(string \<Rightarrow> string \<Rightarrow> string) \<Rightarrow> string \<Rightarrow> RuntimeContext \<Rightarrow> RuntimeContext \<times> (error + string)" where
  "getConfigFilePath path_join name ctx =
     (let ctx1 = ctx \<lparr> p_usedFiles := Set_add (p_usedFiles ctx) name \<rparr>;
          ctx2 = (if isNullishRead (readFile ctx1 name) then writeFile name JNull ctx1 else ctx1)
      in (ctx2, case getDirectory ''dist.config'' ctx2 of
                  Inl e \<Rightarrow> Inl e
                | Inr (Data (JStr d)) \<Rightarrow> Inr (path_join d name)
                | Inr _ \<Rightarrow> Inl invalidPathArgument))"

definition fileNotDefined :: "string \<Rightarrow> error" where
  "fileNotDefined name =
     TypeError (''Configuration file '' @ [CHR 0x27] @ name @ [CHR 0x27] @ '' was not defined'')"

definition getConfigFileDefinition ::
  "string \<Rightarrow> RuntimeContext \<Rightarrow> RuntimeContext \<times> (error + jsread)" where
  "getConfigFileDefinition name ctx =
     (let ctx1 = ctx \<lparr> p_usedFiles := Set_add (p_usedFiles ctx) name \<rparr>;
          ret = readFile ctx1 name
      in (ctx1, if \<not> truthyRead ret then Inl (fileNotDefined name) else Inr ret))"

text \<open>
  \<^verbatim>\<open>getFileContents\<close> (utils/FileUtil) renders a definition; it is the parameter
  \<open>getFileContents\<close>, applied to the context, the definition and the path as in the
  source. What it does to the context later, when the promise it returns is run, is
  outside the model.
\<close>

definition getConfigFileContents ::
  "(string \<Rightarrow> string \<Rightarrow> string) \<Rightarrow> (RuntimeContext \<Rightarrow> jsread \<Rightarrow> string \<Rightarrow> 'r) \<Rightarrow>
   string \<Rightarrow> RuntimeContext \<Rightarrow> RuntimeContext \<times> (error + 'r)" where
  "getConfigFileContents path_join getFileContents name ctx =
     (let ctx1 = ctx \<lparr> p_usedFiles := Set_add (p_usedFiles ctx) name \<rparr> in
      case getConfigFileDefinition name ctx1 of
        (ctx2, Inl e) \<Rightarrow> (ctx2, Inl e)
      | (ctx2, Inr fileDef) \<Rightarrow>
          (case getConfigFilePath path_join name ctx2 of
             (ctx3, Inl e) \<Rightarrow> (ctx3, Inl e)
           | (ctx3, Inr fileName) \<Rightarrow> (ctx3, Inr (getFileContents ctx3 fileDef fileName))))"

definition getUsedConfigFiles :: "RuntimeContext \<Rightarrow> string list" where
  "getUsedConfigFiles ctx = p_usedFiles ctx"

definition setConfigFile :: "string \<Rightarrow> jsval \<Rightarrow> RuntimeContext \<Rightarrow> RuntimeContext" where
  "setConfigFile name contents ctx = writeFile name contents ctx"

subsection \<open>Process execution\<close>





subsection \<open>Sequences of calls on a context\<close>

text \<open>
  The methods that change a context, as a datatype of calls, and the context a call
  leaves behind whether it returns or throws. The reading methods (\<^verbatim>\<open>getArg\<close>,
  \<^verbatim>\<open>getOption\<close>, \<^verbatim>\<open>getDirectory\<close>, \<^verbatim>\<open>getUsedConfigFiles\<close>, \<^verbatim>\<open>exec\<close>) change nothing.
\<close>

datatype call =
    GetConfigFilePath string
  | GetConfigFileDefinition string
  | GetConfigFileContents string
  | SetConfigFile string jsval
  | SetDirectory string string
  | UpdateOptions "(pkey \<times> jsval) list"
  | UpdateArgs "(pkey \<times> jsval) list"

fun perform ::
  "(string \<Rightarrow> string \<Rightarrow> string) \<Rightarrow> (RuntimeContext \<Rightarrow> jsread \<Rightarrow> string \<Rightarrow> 'r) \<Rightarrow>
   call \<Rightarrow> RuntimeContext \<Rightarrow> RuntimeContext" where
  "perform pj gfc (GetConfigFilePath name) ctx = fst (getConfigFilePath pj name ctx)"
| "perform pj gfc (GetConfigFileDefinition name) ctx = fst (getConfigFileDefinition name ctx)"
| "perform pj gfc (GetConfigFileContents name) ctx = fst (getConfigFileContents pj gfc name ctx)"
| "perform pj gfc (SetConfigFile name contents) ctx = setConfigFile name contents ctx"
| "perform pj gfc (SetDirectory alias path) ctx = setDirectory alias path ctx"
| "perform pj gfc (UpdateOptions obj) ctx = updateOptions obj ctx"
| "perform pj gfc (UpdateArgs args) ctx = updateArgs args ctx"

text \<open>The names a call passes to one of the three accessors.\<close>

fun accessed :: "call \<Rightarrow> string set" where
  "accessed (GetConfigFilePath name) = {name}"
| "accessed (GetConfigFileDefinition name) = {name}"
| "accessed (GetConfigFileContents name) = {name}"
| "accessed _ = {}"

section \<open>The action lifecycle\<close>

text \<open>
  An action (types/Action) has an optional \<^verbatim>\<open>preRun\<close>, a \<^verbatim>\<open>run\<close> and an optional
  \<^verbatim>\<open>postRun\<close> handler. A handler receives the context and returns a promise; the model
  returns the context the handler leaves and either the rejection, rendered as text, or
  fulfilment.
\<close>

type_synonym handler = "RuntimeContext \<Rightarrow> RuntimeContext \<times> (string + unit)"

record Action =
  preRun :: "handler option"
  run :: handler
  postRun :: "handler option"

text \<open>
  Modelled from the spec: the lifecycle of an invocation, which the module \<^verbatim>\<open>actions\<close>
  implements (\<^verbatim>\<open>invokeAction\<close>; the module is not among the repository's files).
  Section 4.6 of the specification: the states run
  \<open>Idle \<rightarrow> PreRun \<rightarrow> Run \<rightarrow> PostRun \<rightarrow> Done\<close>, with a terminal state \<open>Failed\<close>
  reachable from each of the three stages.
\<close>

datatype lifecycle = Idle | PreRun | Run | PostRun | Done | Failed

text \<open>
  Modelled from the spec: the transition rule of section 4.6, for \<^verbatim>\<open>invokeAction\<close>. A
  stage executes only if it is defined; a rejection at any stage goes directly to
  \<open>Failed\<close>, skips the remaining stages and is propagated to the caller. \<open>runStages\<close>
  returns the states entered after the current one, the final context and the outcome.
\<close>

fun runStages ::
  "(lifecycle \<times> handler option) list \<Rightarrow> RuntimeContext \<Rightarrow>
   lifecycle list \<times> RuntimeContext \<times> (string + unit)" where
  "runStages [] ctx = ([Done], ctx, Inr ())"
| "runStages ((st, None) # rest) ctx = runStages rest ctx"
| "runStages ((st, Some h) # rest) ctx =
     (case h ctx of
        (ctx', Inl err) \<Rightarrow> ([st, Failed], ctx', Inl err)
      | (ctx', Inr _) \<Rightarrow>
          (case runStages rest ctx' of (tr, ctx'', r) \<Rightarrow> (st # tr, ctx'', r)))"

text \<open>
  Modelled from the spec: \<^verbatim>\<open>invokeAction\<close> (module \<^verbatim>\<open>actions\<close>, not among the files), as
  section 4.6 sequences it: \<^verbatim>\<open>preRun\<close> if defined, \<^verbatim>\<open>run\<close>, \<^verbatim>\<open>postRun\<close> if defined,
  against one context.
\<close>

definition invokeAction ::
  "Action \<Rightarrow> RuntimeContext \<Rightarrow> lifecycle list \<times> RuntimeContext \<times> (string + unit)" where
  "invokeAction action ctx =
     (case runStages [(PreRun, preRun action), (Run, Some (run action)), (PostRun, postRun action)] ctx
      of (tr, ctx', r) \<Rightarrow> (Idle # tr, ctx', r))"

text \<open>
  The command handler of \<^verbatim>\<open>cli\<close> (entry-cli.ts), from the call of \<^verbatim>\<open>invokeAction\<close> on:
  fulfilment is logged at info level; a rejection is logged at error level and the
  process exits with status 1. The result is the lifecycle trace, the log line and the
  exit status the handler sets, if any.
\<close>

datatype logline = LogInfo string | LogError string

definition liftingEmoji :: string where
  "liftingEmoji =
     [CHR 0xF0, CHR 0x9F, CHR 0x8F, CHR 0x8B, CHR 0xEF, CHR 0xB8, CHR 0x8F, CHR 0xE2,
      CHR 0x80, CHR 0x8D, CHR 0xE2, CHR 0x99, CHR 0x80, CHR 0xEF, CHR 0xB8, CHR 0x8F]"

definition cliInvoke ::
  "string \<Rightarrow> Action \<Rightarrow> RuntimeContext \<Rightarrow> lifecycle list \<times> logline \<times> nat option" where
  "cliInvoke actionName action ctx =
     (case invokeAction action ctx of
        (tr, ctx', Inr _) \<Rightarrow>
          (tr, LogInfo (liftingEmoji @ ''  '' @ actionName @ '' step completed''), None)
      | (tr, ctx', Inl err) \<Rightarrow>
          (tr, LogError (liftingEmoji @ ''  '' @ actionName @ '' step failed: '' @ err), Some 1))"

section \<open>Auxiliary notions for the statements\<close>







text \<open>
  Concrete stand-ins for the parameters, for the worked examples: a join with a slash,
  a content renderer that returns the definition with its path, a handler that rejects
  and one that fulfils.
\<close>

definition slashJoin :: "string \<Rightarrow> string \<Rightarrow> string" where
  "slashJoin d n = d @ ''/'' @ n"

definition definitionAtPath :: "RuntimeContext \<Rightarrow> jsread \<Rightarrow> string \<Rightarrow> jsread \<times> string" where
  "definitionAtPath ctx fileDef fileName = (fileDef, fileName)"

definition rejecting :: "string \<Rightarrow> handler" where
  "rejecting err ctx = (ctx, Inl err)"

definition fulfilling :: handler where
  "fulfilling ctx = (ctx, Inr ())"

text \<open>
  The assignments \<^verbatim>\<open>this._config_files[name] = x\<close> that store an own property: every name
  but \<^verbatim>\<open>__proto__\<close>, and that one too once it is an own property or the prototype is \<^verbatim>\<open>null\<close>.
\<close>

definition storesOwn :: "string \<Rightarrow> RuntimeContext \<Rightarrow> bool" where
  "storesOwn name ctx =
     (name \<noteq> ''__proto__'' \<or> name \<in> set (map fst (p_config_files ctx))
      \<or> p_config_files_proto ctx = NullPrototype)"

section \<open>Properties of the model\<close>

declare deepmerge.simps [simp del] cloneUnlessOtherwiseSpecified.simps [simp del]
  mergeObject.simps [simp del]

subsection \<open>Keys\<close>





subsection \<open>Assignments to an object\<close>










subsection \<open>What a merge stores under a key\<close>








subsection \<open>Arrays along a path of keys\<close>








subsection \<open>Copies\<close>









subsection \<open>Merging over a value that is not mergeable\<close>



subsection \<open>The options of a spawned process\<close>









subsection \<open>The registry of configuration files\<close>

lemma usedFiles_writeFile: "p_usedFiles (writeFile name x ctx) = p_usedFiles ctx"
  by (cases x) (simp_all add: writeFile_def)

lemma dir_writeFile: "p_dir (writeFile name x ctx) = p_dir ctx"
  by (cases x) (simp_all add: writeFile_def)

text \<open>What a read gives after an assignment that stores an own property.\<close>

lemma writeFile_own:
  "storesOwn name ctx \<Longrightarrow>
   writeFile name x ctx = ctx \<lparr> p_config_files := AList.update name x (p_config_files ctx) \<rparr>"
  by (auto simp: storesOwn_def writeFile_def)

lemma readFile_writeFile: "storesOwn name ctx \<Longrightarrow> readFile (writeFile name x ctx) name = Data x"
  by (simp add: writeFile_own readFile_def update_conv')

lemma nullish_storesOwn: "isNullishRead (readFile ctx name) \<Longrightarrow> storesOwn name ctx"
proof (rule ccontr)
  assume n: "isNullishRead (readFile ctx name)" and "\<not> storesOwn name ctx"
  then have name: "name = ''__proto__''" and own: "map_of (p_config_files ctx) name = None"
    and proto: "p_config_files_proto ctx \<noteq> NullPrototype"
    by (auto simp: storesOwn_def map_of_eq_None_iff)
  then have "\<not> isNullishRead (readFile ctx name)"
    by (cases "p_config_files_proto ctx")
      (simp_all add: readFile_def objectPrototypeMembers_def)
  with n show False by simp
qed

lemma readFile_usedFiles [simp]:
  "readFile (ctx \<lparr> p_usedFiles := u \<rparr>) name = readFile ctx name"
  by (simp add: readFile_def split: option.splits)

lemma storesOwn_usedFiles [simp]:
  "storesOwn name (ctx \<lparr> p_usedFiles := u \<rparr>) = storesOwn name ctx"
  by (simp add: storesOwn_def)

subsection \<open>The used files\<close>

lemma set_Set_add: "set (Set_add s x) = insert x (set s)"
  by (auto simp: Set_add_def)

lemma distinct_Set_add: "distinct s \<Longrightarrow> distinct (Set_add s x)"
  by (simp add: Set_add_def)

lemma Set_add_idem: "Set_add (Set_add s x) x = Set_add s x"
  by (simp add: Set_add_def)

lemma usedFiles_getConfigFilePath:
  "p_usedFiles (fst (getConfigFilePath pj name ctx)) = Set_add (p_usedFiles ctx) name"
  by (simp add: getConfigFilePath_def Let_def usedFiles_writeFile)

lemma usedFiles_getConfigFileDefinition:
  "p_usedFiles (fst (getConfigFileDefinition name ctx)) = Set_add (p_usedFiles ctx) name"
  by (simp add: getConfigFileDefinition_def Let_def)

lemma usedFiles_getConfigFileContents:
  "p_usedFiles (fst (getConfigFileContents pj gfc name ctx)) = Set_add (p_usedFiles ctx) name"
proof -
  let ?ctx1 = "ctx \<lparr> p_usedFiles := Set_add (p_usedFiles ctx) name \<rparr>"
  have u1: "p_usedFiles (fst (getConfigFileDefinition name ?ctx1)) = Set_add (p_usedFiles ctx) name"
    by (simp add: usedFiles_getConfigFileDefinition Set_add_idem)
  have u2: "p_usedFiles (fst (getConfigFilePath pj name (fst (getConfigFileDefinition name ?ctx1))))
              = Set_add (p_usedFiles ctx) name"
    by (simp add: usedFiles_getConfigFilePath u1 Set_add_idem)
  show ?thesis
  proof (cases "getConfigFileDefinition name ?ctx1")
    case (Pair ctx2 r)
    show ?thesis
    proof (cases r)
      case (Inl e)
      with Pair u1 show ?thesis by (simp add: getConfigFileContents_def Let_def)
    next
      case (Inr fileDef)
      with Pair u2 show ?thesis
        by (cases "getConfigFilePath pj name ctx2"; cases "snd (getConfigFilePath pj name ctx2)")
          (simp_all add: getConfigFileContents_def Let_def)
    qed
  qed
qed

lemma usedFiles_setters:
  "p_usedFiles (setConfigFile name contents ctx) = p_usedFiles ctx"
  "p_usedFiles (setDirectory alias path ctx) = p_usedFiles ctx"
  "p_usedFiles (updateOptions obj ctx) = p_usedFiles ctx"
  "p_usedFiles (updateArgs args ctx) = p_usedFiles ctx"
  by (simp_all add: setConfigFile_def usedFiles_writeFile setDirectory_def updateOptions_def
      updateArgs_def)

lemmas usedFiles_calls = usedFiles_getConfigFilePath usedFiles_getConfigFileDefinition
  usedFiles_getConfigFileContents usedFiles_setters

lemma set_usedFiles_perform:
  "set (p_usedFiles (perform pj gfc c ctx)) = set (p_usedFiles ctx) \<union> accessed c"
  by (cases c) (simp_all add: usedFiles_calls set_Set_add)

lemma distinct_usedFiles_perform:
  "distinct (p_usedFiles ctx) \<Longrightarrow> distinct (p_usedFiles (perform pj gfc c ctx))"
  by (cases c) (simp_all add: usedFiles_calls distinct_Set_add)

lemma set_usedFiles_fold:
  "set (p_usedFiles (fold (perform pj gfc) calls ctx)) =
     set (p_usedFiles ctx) \<union> \<Union> (accessed ` set calls)"
  by (induction calls arbitrary: ctx) (auto simp: set_usedFiles_perform)

lemma distinct_usedFiles_fold:
  "distinct (p_usedFiles ctx) \<Longrightarrow> distinct (p_usedFiles (fold (perform pj gfc) calls ctx))"
  by (induction calls arbitrary: ctx) (simp_all add: distinct_usedFiles_perform)


subsection \<open>The state \<^verbatim>\<open>getConfigFilePath\<close> leaves\<close>

lemma getDirectory_dir: "p_dir a = p_dir b \<Longrightarrow> getDirectory alias a = getDirectory alias b"
  by (simp add: getDirectory_def readDirectory_def)

lemma getConfigFilePath_state:
  "fst (getConfigFilePath path_join name ctx) =
     (if isNullishRead (readFile ctx name)
      then writeFile name JNull (ctx \<lparr> p_usedFiles := Set_add (p_usedFiles ctx) name \<rparr>)
      else ctx \<lparr> p_usedFiles := Set_add (p_usedFiles ctx) name \<rparr>)"
  by (simp add: getConfigFilePath_def Let_def)

lemma dir_getConfigFilePath: "p_dir (fst (getConfigFilePath path_join name ctx)) = p_dir ctx"
  by (simp add: getConfigFilePath_state dir_writeFile)

lemma getConfigFilePath_result:
  "snd (getConfigFilePath path_join name ctx) =
     (case getDirectory ''dist.config'' ctx of
        Inl e \<Rightarrow> Inl e
      | Inr (Data (JStr d)) \<Rightarrow> Inr (path_join d name)
      | Inr _ \<Rightarrow> Inl invalidPathArgument)"
proof -
  have "getDirectory ''dist.config'' (fst (getConfigFilePath path_join name ctx))
      = getDirectory ''dist.config'' ctx"
    by (rule getDirectory_dir) (rule dir_getConfigFilePath)
  then show ?thesis
    by (simp add: getConfigFilePath_def Let_def)
qed

lemma placeholder_stored:
  assumes "isNullishRead (readFile ctx name)"
  shows "map_of (p_config_files (fst (getConfigFilePath path_join name ctx))) name = Some JNull"
    and "readFile (fst (getConfigFilePath path_join name ctx)) name = Data JNull"
proof -
  let ?c = "ctx \<lparr> p_usedFiles := Set_add (p_usedFiles ctx) name \<rparr>"
  from assms have own: "storesOwn name ?c" by (simp add: nullish_storesOwn)
  from assms have st: "fst (getConfigFilePath path_join name ctx) = writeFile name JNull ?c"
    by (simp add: getConfigFilePath_state)
  show "map_of (p_config_files (fst (getConfigFilePath path_join name ctx))) name = Some JNull"
    by (simp add: st writeFile_own[OF own] update_conv')
  show "readFile (fst (getConfigFilePath path_join name ctx)) name = Data JNull"
    by (simp add: st readFile_writeFile[OF own])
qed

subsection \<open>The configuration \<^verbatim>\<open>updateOptions\<close> leaves\<close>


section \<open>The claims\<close>




text \<open>
  C2, as amended. For a name for which the registry yields no definition (the read
  \<^verbatim>\<open>_config_files[name]\<close> gives \<^verbatim>\<open>undefined\<close> or \<^verbatim>\<open>null\<close>, as it does on a fresh context for
  every name that is not the name of a member of \<^verbatim>\<open>Object.prototype\<close>) and with the alias
  \<^verbatim>\<open>dist.config\<close> bound to a directory, \<^verbatim>\<open>getConfigFilePath\<close> succeeds, returns the join of
  that directory and the name, and leaves a null placeholder stored for the name; in the
  state it leaves, \<^verbatim>\<open>getConfigFileDefinition\<close> fails with the "was not defined" error, and
  so does \<^verbatim>\<open>getConfigFileContents\<close>.
\<close>

theorem getConfigFilePath_undefined_name:
  assumes "isNullishRead (readFile ctx name)"
    and "map_of (p_dir ctx) ''dist.config'' = Some d"
  shows "snd (getConfigFilePath path_join name ctx) = Inr (path_join d name)
       \<and> map_of (p_config_files (fst (getConfigFilePath path_join name ctx))) name = Some JNull
       \<and> snd (getConfigFileDefinition name (fst (getConfigFilePath path_join name ctx)))
           = Inl (fileNotDefined name)
       \<and> snd (getConfigFileContents path_join getFileContents name
                (fst (getConfigFilePath path_join name ctx)))
           = Inl (fileNotDefined name)
       \<and> (name \<notin> set objectPrototypeMembers \<longrightarrow>
            isNullishRead (readFile (new_RuntimeContext env dir) name))"
proof -
  let ?after = "fst (getConfigFilePath path_join name ctx)"
  from assms(2) have "getDirectory ''dist.config'' ctx = Inr (Data (JStr d))"
    by (simp add: getDirectory_def readDirectory_def)
  then have a: "snd (getConfigFilePath path_join name ctx) = Inr (path_join d name)"
    by (simp add: getConfigFilePath_result)
  have b: "map_of (p_config_files ?after) name = Some JNull"
    using assms(1) by (rule placeholder_stored)
  have r: "readFile ?after name = Data JNull"
    using assms(1) by (rule placeholder_stored)
  have c: "snd (getConfigFileDefinition name ?after) = Inl (fileNotDefined name)"
    by (simp add: getConfigFileDefinition_def Let_def r)
  have e: "snd (getConfigFileContents path_join getFileContents name ?after)
      = Inl (fileNotDefined name)"
    by (simp add: getConfigFileContents_def getConfigFileDefinition_def Let_def r)
  have f: "name \<notin> set objectPrototypeMembers \<longrightarrow>
      isNullishRead (readFile (new_RuntimeContext env dir) name)"
    by (simp add: readFile_def new_RuntimeContext_def)
  from a b c e f show ?thesis by blast
qed

theorem getConfigFilePath_undefined_name_witness:
  "isNullishRead (readFile (new_RuntimeContext [] [(''dist.config'', ''/out'')]) ''foo'')
   \<and> map_of (p_dir (new_RuntimeContext [] [(''dist.config'', ''/out'')])) ''dist.config''
       = Some ''/out''
   \<and> snd (getConfigFilePath slashJoin ''foo''
         (new_RuntimeContext [] [(''dist.config'', ''/out'')])) = Inr ''/out/foo''
   \<and> snd (getConfigFileDefinition ''foo'' (fst (getConfigFilePath slashJoin ''foo''
         (new_RuntimeContext [] [(''dist.config'', ''/out'')])))) = Inl (fileNotDefined ''foo'')"
proof -
  let ?ctx = "new_RuntimeContext [] [(''dist.config'', ''/out'')]"
  have h1: "isNullishRead (readFile ?ctx ''foo'')"
    by (simp add: new_RuntimeContext_def readFile_def objectPrototypeMembers_def)
  have h2: "map_of (p_dir ?ctx) ''dist.config'' = Some ''/out''"
    by (simp add: new_RuntimeContext_def)
  from getConfigFilePath_undefined_name[OF h1 h2, of slashJoin definitionAtPath "[]" "[]"] h1 h2
  show ?thesis by (simp add: slashJoin_def)
qed

text \<open>
  The claim as stated asks neither for the alias to be bound nor for the name to be one
  the registry does not inherit. On a fresh context with no directory at all, the name
  \<^verbatim>\<open>foo\<close> has no registered definition and \<^verbatim>\<open>getConfigFilePath\<close> fails with the "directory
  not defined" error of \<^verbatim>\<open>getDirectory\<close>. And with the alias bound, the never-registered
  name \<^verbatim>\<open>toString\<close> gets its path but no placeholder (the read \<^verbatim>\<open>_config_files["toString"]\<close>
  finds the function inherited from \<^verbatim>\<open>Object.prototype\<close>), and \<^verbatim>\<open>getConfigFileDefinition\<close>
  then returns that function instead of failing.
\<close>

theorem getConfigFilePath_unbound_counterexample:
  "map_of (p_config_files (new_RuntimeContext [] [])) ''foo'' = None
   \<and> snd (getConfigFilePath slashJoin ''foo'' (new_RuntimeContext [] []))
       = Inl (directoryNotDefined ''dist.config'')
   \<and> map_of (p_config_files (new_RuntimeContext [] [(''dist.config'', ''/out'')])) ''toString''
       = None
   \<and> snd (getConfigFilePath slashJoin ''toString''
         (new_RuntimeContext [] [(''dist.config'', ''/out'')])) = Inr ''/out/toString''
   \<and> p_config_files (fst (getConfigFilePath slashJoin ''toString''
         (new_RuntimeContext [] [(''dist.config'', ''/out'')]))) = []
   \<and> snd (getConfigFileDefinition ''toString'' (fst (getConfigFilePath slashJoin ''toString''
         (new_RuntimeContext [] [(''dist.config'', ''/out'')]))))
       = Inr (ObjectMember ''toString'')"
  by (simp add: getConfigFilePath_def getConfigFileDefinition_def new_RuntimeContext_def
      getDirectory_def readDirectory_def readFile_def writeFile_def Let_def slashJoin_def
      objectPrototypeMembers_def)




text \<open>
  C4. On a context made by the constructor, after any sequence of calls, the names
  \<^verbatim>\<open>getUsedConfigFiles\<close> returns are exactly those passed to \<^verbatim>\<open>getConfigFilePath\<close>,
  \<^verbatim>\<open>getConfigFileDefinition\<close> or \<^verbatim>\<open>getConfigFileContents\<close>, each once; from any context,
  the calls add exactly those names, and no call removes a name. After registering
  \<^verbatim>\<open>b\<close> and calling the three accessors on \<^verbatim>\<open>a\<close>, \<^verbatim>\<open>b\<close> and \<^verbatim>\<open>b\<close>, the result is
  \<^verbatim>\<open>a\<close> and \<^verbatim>\<open>b\<close>.
\<close>

theorem usedFiles_accumulate:
  "set (getUsedConfigFiles (fold (perform pj gfc) calls (new_RuntimeContext env dir)))
     = \<Union> (accessed ` set calls)
   \<and> distinct (getUsedConfigFiles (fold (perform pj gfc) calls (new_RuntimeContext env dir)))
   \<and> set (getUsedConfigFiles (fold (perform pj gfc) calls ctx))
     = set (getUsedConfigFiles ctx) \<union> \<Union> (accessed ` set calls)
   \<and> set (getUsedConfigFiles ctx) \<subseteq> set (getUsedConfigFiles (perform pj gfc c ctx))
   \<and> getUsedConfigFiles (fold (perform pj gfc)
        [SetConfigFile ''b'' d, GetConfigFilePath ''a'', GetConfigFileDefinition ''b'',
         GetConfigFileContents ''b''] (new_RuntimeContext env dir)) = [''a'', ''b'']"
proof -
  have fresh: "p_usedFiles (new_RuntimeContext env dir) = []"
    by (simp add: new_RuntimeContext_def)
  have "p_usedFiles (fold (perform pj gfc)
        [SetConfigFile ''b'' d, GetConfigFilePath ''a'', GetConfigFileDefinition ''b'',
         GetConfigFileContents ''b''] (new_RuntimeContext env dir)) = [''a'', ''b'']"
    by (simp add: usedFiles_calls fresh Set_add_def)
  then show ?thesis
    using distinct_usedFiles_fold[of "new_RuntimeContext env dir" pj gfc calls]
    by (auto simp: getUsedConfigFiles_def set_usedFiles_fold set_usedFiles_perform fresh)
qed

theorem usedFiles_accumulate_witness:
  "getUsedConfigFiles (fold (perform slashJoin definitionAtPath)
        [SetConfigFile ''b'' (JStr ''contents''), GetConfigFilePath ''a'',
         GetConfigFileDefinition ''b'', GetConfigFileContents ''b'']
        (new_RuntimeContext [] [(''dist.config'', ''/out'')])) = [''a'', ''b'']"
  using usedFiles_accumulate[of slashJoin definitionAtPath "[]" "[]"
      "[(''dist.config'', ''/out'')]" "new_RuntimeContext [] []" "GetConfigFilePath ''a''"
      "JStr ''contents''"]
  by blast







text \<open>
  C7. When the \<^verbatim>\<open>run\<close> stage of an action rejects (the \<^verbatim>\<open>preRun\<close> stage being absent or
  fulfilled), the lifecycle goes from \<open>Run\<close> directly to \<open>Failed\<close>: \<open>PostRun\<close> is
  never entered, \<open>Done\<close> is never reached, the command handler logs the failure at
  error level and exits with status 1.
\<close>

theorem failed_run_skips_postRun:
  assumes "preRun action = None \<and> ctx1 = ctx
           \<or> (\<exists>h. preRun action = Some h \<and> h ctx = (ctx1, Inr ()))"
    and "run action ctx1 = (ctx2, Inl err)"
  shows "cliInvoke actionName action ctx =
           ((if preRun action = None then [Idle, Run, Failed] else [Idle, PreRun, Run, Failed]),
            LogError (liftingEmoji @ ''  '' @ actionName @ '' step failed: '' @ err),
            Some 1)
       \<and> PostRun \<notin> set (fst (cliInvoke actionName action ctx))
       \<and> Done \<notin> set (fst (cliInvoke actionName action ctx))
       \<and> snd (snd (cliInvoke actionName action ctx)) \<noteq> None
       \<and> snd (snd (cliInvoke actionName action ctx)) \<noteq> Some 0"
  using assms
  by (auto simp: cliInvoke_def invokeAction_def)

theorem failed_run_skips_postRun_witness:
  "preRun \<lparr> preRun = Some fulfilling, run = rejecting ''boom'', postRun = Some fulfilling \<rparr>
     = Some fulfilling
   \<and> fulfilling (new_RuntimeContext [] []) = (new_RuntimeContext [] [], Inr ())
   \<and> run \<lparr> preRun = Some fulfilling, run = rejecting ''boom'', postRun = Some fulfilling \<rparr>
       (new_RuntimeContext [] []) = (new_RuntimeContext [] [], Inl ''boom'')
   \<and> cliInvoke ''build''
       \<lparr> preRun = Some fulfilling, run = rejecting ''boom'', postRun = Some fulfilling \<rparr>
       (new_RuntimeContext [] [])
     = ([Idle, PreRun, Run, Failed],
        LogError (liftingEmoji @ ''  build step failed: boom''), Some 1)"
proof -
  let ?a = "\<lparr> preRun = Some fulfilling, run = rejecting ''boom'', postRun = Some fulfilling \<rparr>"
  let ?ctx = "new_RuntimeContext [] []"
  have h0: "fulfilling ?ctx = (?ctx, Inr ())" by (simp add: fulfilling_def)
  have h1: "preRun ?a = None \<and> ?ctx = ?ctx
            \<or> (\<exists>h. preRun ?a = Some h \<and> h ?ctx = (?ctx, Inr ()))"
    using h0 by simp
  have h2: "run ?a ?ctx = (?ctx, Inl ''boom'')" by (simp add: rejecting_def)
  from failed_run_skips_postRun[OF h1 h2, of "''build''"] h0 h2
  show ?thesis by simp
qed




text \<open>
  C9, as amended. \<^verbatim>\<open>getConfigFilePath\<close> adds the name to the used files and, when the
  registry yields no definition for the name (the read \<^verbatim>\<open>_config_files[name]\<close> gives
  \<^verbatim>\<open>undefined\<close> or \<^verbatim>\<open>null\<close>), stores the null placeholder, before it resolves the alias
  \<^verbatim>\<open>dist.config\<close>. So when the alias is not bound the call fails with the "directory not
  defined" error and the context it leaves has already been changed: the name is among
  the used files (appended, if it was not there), and for a name without definition the
  null placeholder is stored.
\<close>

theorem getConfigFilePath_not_atomic:
  assumes "map_of (p_dir ctx) ''dist.config'' = None"
  shows "snd (getConfigFilePath path_join name ctx) = Inl (directoryNotDefined ''dist.config'')
       \<and> name \<in> set (getUsedConfigFiles (fst (getConfigFilePath path_join name ctx)))
       \<and> (isNullishRead (readFile ctx name) \<longrightarrow>
            map_of (p_config_files (fst (getConfigFilePath path_join name ctx))) name = Some JNull)
       \<and> (name \<notin> set (getUsedConfigFiles ctx) \<longrightarrow>
            getUsedConfigFiles (fst (getConfigFilePath path_join name ctx))
              = getUsedConfigFiles ctx @ [name])
       \<and> (name \<notin> set objectPrototypeMembers \<longrightarrow>
            isNullishRead (readFile (new_RuntimeContext env dir) name))"
proof -
  let ?after = "fst (getConfigFilePath path_join name ctx)"
  from assms have "getDirectory ''dist.config'' ctx = Inl (directoryNotDefined ''dist.config'')"
    by (simp add: getDirectory_def readDirectory_def objectPrototypeMembers_def)
  then have a: "snd (getConfigFilePath path_join name ctx)
      = Inl (directoryNotDefined ''dist.config'')"
    by (simp add: getConfigFilePath_result)
  have u: "p_usedFiles ?after = Set_add (p_usedFiles ctx) name"
    by (simp add: getConfigFilePath_state usedFiles_writeFile)
  have b: "name \<in> set (getUsedConfigFiles ?after)"
    by (simp add: getUsedConfigFiles_def u set_Set_add)
  have c: "isNullishRead (readFile ctx name) \<longrightarrow> map_of (p_config_files ?after) name = Some JNull"
    by (simp add: placeholder_stored)
  have e: "name \<notin> set (getUsedConfigFiles ctx) \<longrightarrow>
      getUsedConfigFiles ?after = getUsedConfigFiles ctx @ [name]"
    by (simp add: getUsedConfigFiles_def u Set_add_def)
  have f: "name \<notin> set objectPrototypeMembers \<longrightarrow>
      isNullishRead (readFile (new_RuntimeContext env dir) name)"
    by (simp add: readFile_def new_RuntimeContext_def)
  from a b c e f show ?thesis by blast
qed

theorem getConfigFilePath_not_atomic_witness:
  "map_of (p_dir (new_RuntimeContext [] [])) ''dist.config'' = None
   \<and> isNullishRead (readFile (new_RuntimeContext [] []) ''foo'')
   \<and> ''foo'' \<notin> set (getUsedConfigFiles (new_RuntimeContext [] []))
   \<and> snd (getConfigFilePath slashJoin ''foo'' (new_RuntimeContext [] []))
       = Inl (directoryNotDefined ''dist.config'')
   \<and> getUsedConfigFiles (fst (getConfigFilePath slashJoin ''foo'' (new_RuntimeContext [] [])))
       = [''foo'']
   \<and> map_of (p_config_files (fst (getConfigFilePath slashJoin ''foo''
         (new_RuntimeContext [] [])))) ''foo'' = Some JNull"
proof -
  let ?ctx = "new_RuntimeContext [] []"
  have h1: "map_of (p_dir ?ctx) ''dist.config'' = None" by (simp add: new_RuntimeContext_def)
  have h2: "isNullishRead (readFile ?ctx ''foo'')"
    by (simp add: new_RuntimeContext_def readFile_def objectPrototypeMembers_def)
  have h3: "''foo'' \<notin> set (getUsedConfigFiles ?ctx)"
    by (simp add: new_RuntimeContext_def getUsedConfigFiles_def)
  have h4: "getUsedConfigFiles ?ctx = []"
    by (simp add: new_RuntimeContext_def getUsedConfigFiles_def)
  from getConfigFilePath_not_atomic[OF h1, of slashJoin "''foo''" "[]" "[]"] h1 h2 h3 h4
  show ?thesis by simp
qed

text \<open>
  The claim as stated has the placeholder stored by every failing call. The source
  stores it only under the guard \<^verbatim>\<open>_config_files[name] == null\<close>: for a registered name
  the failing call records the name as used and leaves the definition where it is; and
  for the never-registered name \<^verbatim>\<open>toString\<close> the guard reads the function inherited from
  \<^verbatim>\<open>Object.prototype\<close>, so the failing call records the name as used and stores nothing.
\<close>

theorem getConfigFilePath_keeps_definition_counterexample:
  "snd (getConfigFilePath slashJoin ''foo''
         (setConfigFile ''foo'' (JStr ''x'') (new_RuntimeContext [] [])))
     = Inl (directoryNotDefined ''dist.config'')
   \<and> getUsedConfigFiles (fst (getConfigFilePath slashJoin ''foo''
         (setConfigFile ''foo'' (JStr ''x'') (new_RuntimeContext [] [])))) = [''foo'']
   \<and> map_of (p_config_files (fst (getConfigFilePath slashJoin ''foo''
         (setConfigFile ''foo'' (JStr ''x'') (new_RuntimeContext [] []))))) ''foo''
     = Some (JStr ''x'')
   \<and> map_of (p_config_files (new_RuntimeContext [] [])) ''toString'' = None
   \<and> snd (getConfigFilePath slashJoin ''toString'' (new_RuntimeContext [] []))
     = Inl (directoryNotDefined ''dist.config'')
   \<and> getUsedConfigFiles (fst (getConfigFilePath slashJoin ''toString''
         (new_RuntimeContext [] []))) = [''toString'']
   \<and> p_config_files (fst (getConfigFilePath slashJoin ''toString''
         (new_RuntimeContext [] []))) = []"
  by (simp add: getConfigFilePath_def setConfigFile_def new_RuntimeContext_def getDirectory_def
      readDirectory_def readFile_def writeFile_def getUsedConfigFiles_def Let_def Set_add_def
      objectPrototypeMembers_def)




end
